theory Spec2Isabelle
  imports Complex_Main
begin

section \<open>The ROI simulator of api_explorer_dashboard.py\<close>

text \<open>
  The simulator keeps two ledgers in the Streamlit session state (\<open>sim_trades\<close>, a list of
  dictionaries with the keys \<open>type\<close>, \<open>amount\<close> and \<open>pnl\<close>, and \<open>sim_futures_pnl\<close>, a list of
  numbers), mutates them in button callbacks, and on every run of the page recomputes the
  spot balance, the high-water mark of the net spot flow, the principal adjustment, the
  adjusted PnL and the ROI. Python floats are modelled as the real numbers they stand for
  (the decimals of the specification): rounding is not part of the model.
\<close>

subsection \<open>Data\<close>

datatype error = IndexError | OverflowError | ZeroDivisionError

text \<open>One entry of \<open>sim_trades\<close>: \<open>{'type': 'SELL' | 'BUY', 'amount': amt, 'pnl': pnl}\<close>.\<close>

record trade =
  type :: string
  amount :: real
  pnl :: real

text \<open>
  The keys of \<open>st.session_state\<close> that the simulator uses. A key that the code reads with
  \<open>.get(key, default)\<close> or creates itself may be absent (\<open>None\<close>); the three inputs that
  the callbacks read by attribute are the values of their widgets.
\<close>

record session_state =
  sim_trades :: "trade list"
  sim_futures_pnl :: "real list"
  sim_start_bal :: "real option"
  sim_end_bal :: "real option"
  sim_ext_dep :: "real option"
  sim_ext_wd :: "real option"
  sim_manual_pnl :: "real option"
  sim_init_spot :: "real option"
  sim_spot_sell :: "real option"
  sim_spot_buy :: "real option"
  new_sell_input :: real
  new_sell_pnl :: "real option"
  new_buy_input :: real
  new_futures_pnl_input :: real

text \<open>\<open>st.session_state.get(key, default)\<close>.\<close>

definition session_get :: "'a option \<Rightarrow> 'a \<Rightarrow> 'a" where
  "session_get v dflt = (case v of None \<Rightarrow> dflt | Some x \<Rightarrow> x)"

text \<open>\<open>sum(t['amount'] for t in trades if t['type'] == side)\<close>.\<close>

definition sum_amount :: "string \<Rightarrow> trade list \<Rightarrow> real" where
  "sum_amount side ts = sum_list (map amount (filter (\<lambda>t. type t = side) ts))"

subsection \<open>The callbacks\<close>

definition recalc_balance :: "session_state \<Rightarrow> session_state" where
  "recalc_balance st =
     (let sb = session_get (sim_start_bal st) 0;
          ed = session_get (sim_ext_dep st) 0;
          ew = session_get (sim_ext_wd st) 0;
          manual_pnl_sum = sum_list (sim_futures_pnl st);
          ss = sum_amount ''SELL'' (sim_trades st);
          sb_amt = sum_amount ''BUY'' (sim_trades st)
      in st\<lparr>sim_spot_sell := Some ss,
             sim_spot_buy := Some sb_amt,
             sim_end_bal := Some (sb + ed - ew + ss - sb_amt + manual_pnl_sum)\<rparr>)"

definition add_sell_callback :: "session_state \<Rightarrow> session_state" where
  "add_sell_callback st =
     (let amt = new_sell_input st;
          p = session_get (new_sell_pnl st) 0
      in if amt > 0
         then recalc_balance
                (st\<lparr>sim_trades := sim_trades st @ [\<lparr>type = ''SELL'', amount = amt, pnl = p\<rparr>]\<rparr>)
         else st)"

definition add_buy_callback :: "session_state \<Rightarrow> session_state" where
  "add_buy_callback st =
     (let amt = new_buy_input st
      in if amt > 0
         then recalc_balance
                (st\<lparr>sim_trades := sim_trades st @ [\<lparr>type = ''BUY'', amount = amt, pnl = 0\<rparr>]\<rparr>)
         else st)"

text \<open>
  \<open>list.pop(idx)\<close>. The index is first converted to the machine's index type
  (\<open>Py_ssize_t\<close>, 64 bits wide, so between \<open>-sys.maxsize - 1\<close> and \<open>sys.maxsize\<close>); an
  index that does not fit raises OverflowError. Then a negative index counts from the end;
  an index outside the list raises IndexError; otherwise the element is taken out and the
  elements behind it move one place down. A list that raises is left as it is. A Python
  list never holds more than \<open>sys.maxsize\<close> elements.
\<close>

definition ssize_max :: int where
  "ssize_max = 2 ^ 63 - 1"

fun del_nth :: "nat \<Rightarrow> 'a list \<Rightarrow> 'a list" where
  "del_nth i [] = []"
| "del_nth 0 (x # xs) = xs"
| "del_nth (Suc i) (x # xs) = x # del_nth i xs"

definition list_pop :: "int \<Rightarrow> 'a list \<Rightarrow> error + 'a list" where
  "list_pop idx xs =
     (if idx < - ssize_max - 1 \<or> ssize_max < idx then Inl OverflowError
      else
        (let n = int (length xs);
             i = (if idx < 0 then idx + n else idx)
         in if i < 0 \<or> n \<le> i then Inl IndexError else Inr (del_nth (nat i) xs)))"

text \<open>
  A callback that can raise returns the exception, if any, together with the session state
  it leaves behind: the statements before the raising one have taken effect, those after
  it have not.
\<close>

definition del_trade_callback :: "int \<Rightarrow> session_state \<Rightarrow> error option \<times> session_state" where
  "del_trade_callback idx st =
     (case list_pop idx (sim_trades st) of
        Inl e \<Rightarrow> (Some e, st)
      | Inr ts \<Rightarrow> (None, recalc_balance (st\<lparr>sim_trades := ts\<rparr>)))"

definition add_futures_pnl_callback :: "session_state \<Rightarrow> session_state" where
  "add_futures_pnl_callback st =
     (let p = new_futures_pnl_input st
      in if p \<noteq> 0
         then recalc_balance (st\<lparr>sim_futures_pnl := sim_futures_pnl st @ [p]\<rparr>)
         else st)"

definition del_futures_pnl_callback :: "int \<Rightarrow> session_state \<Rightarrow> error option \<times> session_state" where
  "del_futures_pnl_callback idx st =
     (case list_pop idx (sim_futures_pnl st) of
        Inl e \<Rightarrow> (Some e, st)
      | Inr ps \<Rightarrow> (None, recalc_balance (st\<lparr>sim_futures_pnl := ps\<rparr>)))"

definition reset_trades_callback :: "session_state \<Rightarrow> session_state" where
  "reset_trades_callback st =
     recalc_balance
       (st\<lparr>sim_trades := [],
           sim_futures_pnl := [],
           sim_start_bal := Some 0,
           sim_end_bal := Some 0,
           sim_ext_dep := Some 0,
           sim_ext_wd := Some 0,
           sim_manual_pnl := Some 0,
           sim_init_spot := Some 0\<rparr>)"

subsection \<open>The computation of one run of the page\<close>

text \<open>
  What the computation reads: the exchange selected in the sidebar, the values of the five
  number inputs, and the trade ledger of the session.
\<close>

record sim_inputs =
  exchange_mode :: string
  val_start_bal :: real
  val_end_bal :: real
  val_external_dep :: real
  val_external_wd :: real
  init_spot_input :: real
  trades :: "trade list"

text \<open>
  The exchange is the value of the radio in the sidebar, which offers one option: the
  label that starts with \<open>OKX\<close> (its Korean part is written as its UTF-8 bytes). The option
  for Binance is commented out in the source.
\<close>

definition okx_label :: string where
  "okx_label =
     ''OKX ('' @ [CHR 0xED, CHR 0x86, CHR 0xB5, CHR 0xED, CHR 0x95, CHR 0xA9,
                  CHR 0xEC, CHR 0xA7, CHR 0x80, CHR 0xEA, CHR 0xB0, CHR 0x91] @ '')''"

definition exchange_options :: "string list" where
  "exchange_options = [okx_label]"

text \<open>\<open>s.startswith(p)\<close>.\<close>

definition startswith :: "string \<Rightarrow> string \<Rightarrow> bool" where
  "startswith s p = (take (length p) s = p)"

text \<open>
  The totals shown beside the inputs: the sums over the ledger, replaced by \<open>0.0\<close> when the
  exchange is not OKX. The initial spot balance is the value of its input, and \<open>0.0\<close> when
  the exchange is not OKX.
\<close>

definition val_spot_sell :: "sim_inputs \<Rightarrow> real" where
  "val_spot_sell inp =
     (if startswith (exchange_mode inp) ''OKX'' then sum_amount ''SELL'' (trades inp) else 0)"

definition val_spot_buy :: "sim_inputs \<Rightarrow> real" where
  "val_spot_buy inp =
     (if startswith (exchange_mode inp) ''OKX'' then sum_amount ''BUY'' (trades inp) else 0)"

definition val_initial_spot :: "sim_inputs \<Rightarrow> real" where
  "val_initial_spot inp =
     (if startswith (exchange_mode inp) ''OKX'' then init_spot_input inp else 0)"

text \<open>The loop that replays the ledger on the spot balance, and the clamp after it.\<close>

fun calc_spot_bal :: "real \<Rightarrow> trade list \<Rightarrow> real" where
  "calc_spot_bal bal [] = bal"
| "calc_spot_bal bal (t # ts) =
     (if type t = ''BUY'' then calc_spot_bal (bal + amount t) ts
      else if type t = ''SELL'' then
        (let sell_amt = amount t;
             p = pnl t;
             cost_basis = sell_amt - p
         in calc_spot_bal (bal - cost_basis) ts)
      else calc_spot_bal bal ts)"

definition val_current_spot :: "real \<Rightarrow> trade list \<Rightarrow> real" where
  "val_current_spot curr_init_spot ts = max 0 (calc_spot_bal curr_init_spot ts)"

text \<open>
  The high-water-mark loop, with its three running variables \<open>cum_sell\<close>, \<open>cum_buy\<close> and
  \<open>max_val\<close> as arguments.
\<close>

fun hwm_loop :: "real \<Rightarrow> real \<Rightarrow> real \<Rightarrow> real \<Rightarrow> trade list \<Rightarrow> real" where
  "hwm_loop initial_spot cum_sell cum_buy max_val [] = max_val"
| "hwm_loop initial_spot cum_sell cum_buy max_val (t # ts) =
     (let side = type t;
          amt = amount t;
          cum_sell' = (if side = ''SELL'' then cum_sell + amt else cum_sell);
          cum_buy' = (if side = ''SELL'' then cum_buy
                      else if side = ''BUY'' then cum_buy + amt else cum_buy);
          deduction = min cum_sell' initial_spot;
          flow = (cum_sell' - cum_buy') - deduction;
          max_val' = (if flow > max_val then flow else max_val)
      in hwm_loop initial_spot cum_sell' cum_buy' max_val' ts)"

definition hwm_spot_flow :: "sim_inputs \<Rightarrow> real" where
  "hwm_spot_flow inp =
     (if startswith (exchange_mode inp) ''OKX''
      then hwm_loop (val_initial_spot inp) 0 0 0 (trades inp)
      else 0)"

definition use_hwm :: bool where
  "use_hwm = True"

definition total_deposit :: "sim_inputs \<Rightarrow> real" where
  "total_deposit inp = val_external_dep inp + val_spot_sell inp"

definition total_withdrawal :: "sim_inputs \<Rightarrow> real" where
  "total_withdrawal inp = val_external_wd inp + val_spot_buy inp"

definition net_spot_flow :: "sim_inputs \<Rightarrow> real" where
  "net_spot_flow inp =
     (let net_spot_flow_raw = val_spot_sell inp - val_spot_buy inp;
          spot_deduction = min (val_spot_sell inp) (val_initial_spot inp)
      in net_spot_flow_raw - spot_deduction)"

definition principal_adj :: "sim_inputs \<Rightarrow> real" where
  "principal_adj inp =
     (if startswith (exchange_mode inp) ''OKX'' then
        (if use_hwm then val_external_dep inp + max 0 (hwm_spot_flow inp)
         else val_external_dep inp + max 0 (net_spot_flow inp))
      else val_external_dep inp)"

definition adjusted_pnl :: "sim_inputs \<Rightarrow> real" where
  "adjusted_pnl inp =
     (let raw_pnl = val_end_bal inp - val_start_bal inp
      in raw_pnl - total_deposit inp + total_withdrawal inp)"

text \<open>Python's \<open>/\<close> on floats raises ZeroDivisionError when the divisor is zero.\<close>

definition truediv :: "real \<Rightarrow> real \<Rightarrow> error + real" where
  "truediv x y = (if y = 0 then Inl ZeroDivisionError else Inr (x / y))"

text \<open>
  \<open>roi = (adjusted_pnl / denominator * 100) if denominator > 0 else 0.0\<close>, as a function of
  the two numbers it is computed from.
\<close>

definition roi_of :: "real \<Rightarrow> real \<Rightarrow> error + real" where
  "roi_of adj denominator =
     (if denominator > 0
      then (case truediv adj denominator of Inl e \<Rightarrow> Inl e | Inr q \<Rightarrow> Inr (q * 100))
      else Inr 0)"

definition roi :: "sim_inputs \<Rightarrow> error + real" where
  "roi inp =
     (let denominator = val_start_bal inp + principal_adj inp
      in roi_of (adjusted_pnl inp) denominator)"

subsection \<open>The specification's formulas\<close>

text \<open>
  The high-water mark as the specification words it: a left-to-right fold over the events
  whose state is (cumSell, cumBuy, hwm), and the flow of a prefix of the ledger.
\<close>

definition hwm_step :: "real \<Rightarrow> real \<times> real \<times> real \<Rightarrow> trade \<Rightarrow> real \<times> real \<times> real" where
  "hwm_step initial_spot acc e =
     (case acc of (cumSell, cumBuy, hwm) \<Rightarrow>
        (let cumSell2 = cumSell + (if type e = ''SELL'' then amount e else 0);
             cumBuy2 = cumBuy + (if type e = ''BUY'' then amount e else 0)
         in (cumSell2, cumBuy2, max hwm ((cumSell2 - cumBuy2) - min cumSell2 initial_spot))))"

definition hwm_fold :: "real \<Rightarrow> trade list \<Rightarrow> real" where
  "hwm_fold initial_spot ts = snd (snd (foldl (hwm_step initial_spot) (0, 0, 0) ts))"

definition prefix_flow :: "real \<Rightarrow> trade list \<Rightarrow> real" where
  "prefix_flow initial_spot ts =
     (sum_amount ''SELL'' ts - sum_amount ''BUY'' ts) - min (sum_amount ''SELL'' ts) initial_spot"

text \<open>
  The flow after a further stretch \<open>p\<close> of the ledger, when the cumulative totals before it
  are \<open>cs\<close> and \<open>cb\<close>; the flow of a prefix is the case \<open>cs = cb = 0\<close>.
\<close>

definition flow_from :: "real \<Rightarrow> real \<Rightarrow> real \<Rightarrow> trade list \<Rightarrow> real" where
  "flow_from init cs cb p =
     ((cs + sum_amount ''SELL'' p) - (cb + sum_amount ''BUY'' p)) - min (cs + sum_amount ''SELL'' p) init"

text \<open>The cost basis that the SELL events of a ledger release.\<close>

definition sum_cost_basis :: "trade list \<Rightarrow> real" where
  "sum_cost_basis ts =
     sum_list (map (\<lambda>t. amount t - pnl t) (filter (\<lambda>t. type t = ''SELL'') ts))"

text \<open>The end balance that \<open>recalc_balance\<close> stores, read off a session state.\<close>

definition end_bal_of :: "session_state \<Rightarrow> real" where
  "end_bal_of st =
     session_get (sim_start_bal st) 0 + session_get (sim_ext_dep st) 0
       - session_get (sim_ext_wd st) 0
       + sum_amount ''SELL'' (sim_trades st) - sum_amount ''BUY'' (sim_trades st)
       + sum_list (sim_futures_pnl st)"

text \<open>The four scalar inputs other than the end balance, as the session holds them.\<close>

definition four_inputs :: "session_state \<Rightarrow> real option \<times> real option \<times> real option \<times> real option" where
  "four_inputs st = (sim_start_bal st, sim_ext_dep st, sim_ext_wd st, sim_init_spot st)"

text \<open>A session with empty ledgers and every number at zero, as after a reset.\<close>

definition empty_session :: session_state where
  "empty_session =
     \<lparr>sim_trades = [], sim_futures_pnl = [],
      sim_start_bal = Some 0, sim_end_bal = Some 0, sim_ext_dep = Some 0, sim_ext_wd = Some 0,
      sim_manual_pnl = Some 0, sim_init_spot = Some 0,
      sim_spot_sell = Some 0, sim_spot_buy = Some 0,
      new_sell_input = 0, new_sell_pnl = Some 0, new_buy_input = 0,
      new_futures_pnl_input = 0\<rparr>"

subsection \<open>Sample inputs\<close>

text \<open>
  Concrete inputs on which the theorems below are evaluated: a run of the page with the
  exchange that the radio offers and a SELL followed by a BUY in the ledger, a run of the
  branch for another exchange with a deposit and an empty ledger, a session whose sell
  input holds 5, and a session with two trades and two futures-PnL entries.
\<close>

definition okx_sell_buy :: sim_inputs where
  "okx_sell_buy =
     \<lparr>exchange_mode = okx_label, val_start_bal = 100, val_end_bal = 150, val_external_dep = 10,
      val_external_wd = 0, init_spot_input = 5,
      trades = [\<lparr>type = ''SELL'', amount = 20, pnl = 0\<rparr>, \<lparr>type = ''BUY'', amount = 30, pnl = 0\<rparr>]\<rparr>"

definition binance_deposit :: sim_inputs where
  "binance_deposit =
     \<lparr>exchange_mode = ''Binance'', val_start_bal = 1000, val_end_bal = 1200,
      val_external_dep = 300, val_external_wd = 0, init_spot_input = 0, trades = []\<rparr>"

definition sell_5_session :: session_state where
  "sell_5_session = empty_session\<lparr>new_sell_input := 5\<rparr>"

definition two_trades_session :: session_state where
  "two_trades_session =
     empty_session\<lparr>sim_trades := [\<lparr>type = ''SELL'', amount = 5, pnl = 0\<rparr>,
                                    \<lparr>type = ''BUY'', amount = 3, pnl = 0\<rparr>],
                    sim_futures_pnl := [7, - 2],
                    new_buy_input := 4, new_futures_pnl_input := - 1\<rparr>"

section \<open>Auxiliary facts\<close>

subsection \<open>Sums over the ledger\<close>

lemma sum_amount_Nil: "sum_amount side [] = 0"
  by (simp add: sum_amount_def)

lemma sum_amount_Cons:
  "sum_amount side (t # ts) = (if type t = side then amount t else 0) + sum_amount side ts"
  by (simp add: sum_amount_def)

lemma sum_amount_append: "sum_amount side (xs @ ys) = sum_amount side xs + sum_amount side ys"
  by (simp add: sum_amount_def)

lemma sum_cost_basis_Cons:
  "sum_cost_basis (t # ts) = (if type t = ''SELL'' then amount t - pnl t else 0) + sum_cost_basis ts"
  by (simp add: sum_cost_basis_def)

lemma calc_spot_bal_eq:
  "calc_spot_bal bal ts = bal + sum_amount ''BUY'' ts - sum_cost_basis ts"
proof (induction ts arbitrary: bal)
  case Nil
  show ?case by (simp add: sum_amount_Nil sum_cost_basis_def)
next
  case (Cons t ts)
  show ?case
    by (simp add: Cons.IH sum_amount_Cons sum_cost_basis_Cons Let_def)
qed

subsection \<open>The high-water-mark loop\<close>

lemma hwm_loop_Cons:
  "hwm_loop init cs cb m (t # ts) =
     hwm_loop init (cs + sum_amount ''SELL'' [t]) (cb + sum_amount ''BUY'' [t])
       (max m (flow_from init cs cb [t])) ts"
  by (simp add: Let_def max_def flow_from_def sum_amount_def)

lemma hwm_step_Cons:
  "hwm_step init (cs, cb, m) t =
     (cs + sum_amount ''SELL'' [t], cb + sum_amount ''BUY'' [t], max m (flow_from init cs cb [t]))"
  by (simp add: hwm_step_def Let_def flow_from_def sum_amount_def)

lemma hwm_loop_fold:
  "hwm_loop init cs cb m ts = snd (snd (foldl (hwm_step init) (cs, cb, m) ts))"
proof (induction ts arbitrary: cs cb m)
  case Nil
  show ?case by simp
next
  case (Cons t ts)
  show ?case
    by (simp only: hwm_loop_Cons foldl_Cons hwm_step_Cons Cons.IH)
qed

lemma flow_from_Cons:
  "flow_from init cs cb (t # p) =
     flow_from init (cs + sum_amount ''SELL'' [t]) (cb + sum_amount ''BUY'' [t]) p"
  by (simp add: flow_from_def sum_amount_def add.assoc)

lemma Max_insert_insert:
  "finite S \<Longrightarrow> Max (insert (m::real) (insert f S)) = Max (insert (max m f) S)"
  by (cases "S = {}") (simp_all add: max.assoc)

lemma range_Suc_split: "{1..length (t # ts)} = insert (Suc 0) (Suc ` {1..length ts})"
  by (auto simp: image_iff)

lemma hwm_loop_Max:
  "hwm_loop init cs cb m ts =
     Max (insert m ((\<lambda>k. flow_from init cs cb (take k ts)) ` {1..length ts}))"
proof (induction ts arbitrary: cs cb m)
  case Nil
  show ?case by simp
next
  case (Cons t ts)
  have img: "(\<lambda>k. flow_from init cs cb (take k (t # ts))) ` {1..length (t # ts)} =
        insert (flow_from init cs cb [t])
          ((\<lambda>k. flow_from init (cs + sum_amount ''SELL'' [t]) (cb + sum_amount ''BUY'' [t])
                  (take k ts)) ` {1..length ts})"
    by (simp only: range_Suc_split image_insert image_image take_Suc_Cons take_0 flow_from_Cons)
  have fin: "finite ((\<lambda>k. flow_from init (cs + sum_amount ''SELL'' [t]) (cb + sum_amount ''BUY'' [t])
                  (take k ts)) ` {1..length ts})"
    by simp
  show ?case
    unfolding hwm_loop_Cons img Cons.IH by (rule Max_insert_insert [OF fin, symmetric])
qed

lemma hwm_loop_ge: "m \<le> hwm_loop init cs cb m ts"
proof (induction ts arbitrary: cs cb m)
  case Nil
  show ?case by simp
next
  case (Cons t ts)
  show ?case
    by (simp add: Let_def) (meson Cons.IH less_imp_le order_trans)
qed

lemma hwm_loop_append:
  "hwm_loop init cs cb m (xs @ ys) =
     hwm_loop init (cs + sum_amount ''SELL'' xs) (cb + sum_amount ''BUY'' xs)
       (hwm_loop init cs cb m xs) ys"
proof (induction xs arbitrary: cs cb m)
  case Nil
  show ?case by (simp add: sum_amount_Nil)
next
  case (Cons t ts)
  show ?case
    by (simp add: Cons.IH Let_def sum_amount_Cons add.assoc)
qed

lemma prefix_flow_flow_from: "prefix_flow init p = flow_from init 0 0 p"
  by (simp add: prefix_flow_def flow_from_def)

subsection \<open>Deleting from a list\<close>

lemma del_nth_take_drop: "i < length xs \<Longrightarrow> del_nth i xs = take i xs @ drop (Suc i) xs"
  by (induction i xs rule: del_nth.induct) simp_all

lemma del_nth_last: "xs \<noteq> [] \<Longrightarrow> del_nth (length xs - 1) xs = butlast xs"
  by (induction xs) (simp_all add: Suc_diff_le del_nth_take_drop butlast_conv_take)

subsection \<open>The callbacks and \<open>list.pop\<close>\<close>

lemma recalc_balance_ledgers:
  "sim_trades (recalc_balance st) = sim_trades st"
  "sim_futures_pnl (recalc_balance st) = sim_futures_pnl st"
  by (simp_all add: recalc_balance_def Let_def)

lemma recalc_balance_four_inputs: "four_inputs (recalc_balance st) = four_inputs st"
  by (simp add: recalc_balance_def four_inputs_def Let_def)

lemma recalc_balance_end_bal:
  "sim_end_bal (recalc_balance st) = Some (end_bal_of (recalc_balance st))"
  by (simp add: recalc_balance_def end_bal_of_def Let_def)

lemma ssize_max_pos: "0 < ssize_max"
  by (simp add: ssize_max_def)

lemma list_pop_overflow:
  "ssize_max < idx \<or> idx < - ssize_max - 1 \<Longrightarrow> list_pop idx xs = Inl OverflowError"
  by (auto simp add: list_pop_def)

lemma list_pop_out_of_range:
  "int (length xs) \<le> idx \<Longrightarrow> idx \<le> ssize_max \<Longrightarrow> list_pop idx xs = Inl IndexError"
  using ssize_max_pos by (simp add: list_pop_def Let_def)

lemma list_pop_below_range:
  "idx < - int (length xs) \<Longrightarrow> - ssize_max - 1 \<le> idx \<Longrightarrow> list_pop idx xs = Inl IndexError"
  using ssize_max_pos by (simp add: list_pop_def Let_def)

lemma list_pop_in_range:
  "0 \<le> idx \<Longrightarrow> idx < int (length xs) \<Longrightarrow> int (length xs) \<le> ssize_max \<Longrightarrow>
   list_pop idx xs = Inr (take (nat idx) xs @ drop (Suc (nat idx)) xs)"
  using ssize_max_pos by (simp add: list_pop_def Let_def del_nth_take_drop)

lemma list_pop_negative:
  "- int (length xs) \<le> idx \<Longrightarrow> idx \<le> - 1 \<Longrightarrow> int (length xs) \<le> ssize_max \<Longrightarrow>
   list_pop idx xs =
     Inr (take (nat (int (length xs) + idx)) xs @ drop (Suc (nat (int (length xs) + idx))) xs)"
  using ssize_max_pos by (simp add: list_pop_def Let_def del_nth_take_drop add.commute)

lemma list_pop_last: "xs \<noteq> [] \<Longrightarrow> list_pop (- 1) xs = Inr (butlast xs)"
proof -
  assume ne: "xs \<noteq> []"
  then have "nat (- 1 + int (length xs)) = length xs - 1"
    by (cases xs) simp_all
  with ne del_nth_last [OF ne] ssize_max_pos show ?thesis
    by (simp add: list_pop_def Let_def)
qed

lemma list_pop_IndexError_negative:
  "idx < 0 \<Longrightarrow> list_pop idx xs = Inl IndexError \<Longrightarrow> idx < - int (length xs)"
  by (simp add: list_pop_def Let_def split: if_splits)

lemma del_trade_callback_raises:
  "list_pop idx (sim_trades st) = Inl e \<Longrightarrow> del_trade_callback idx st = (Some e, st)"
  by (simp add: del_trade_callback_def)

lemma del_trade_callback_pops:
  "list_pop idx (sim_trades st) = Inr ts \<Longrightarrow>
   del_trade_callback idx st = (None, recalc_balance (st\<lparr>sim_trades := ts\<rparr>))"
  by (simp add: del_trade_callback_def)

lemma del_futures_pnl_callback_raises:
  "list_pop idx (sim_futures_pnl st) = Inl e \<Longrightarrow> del_futures_pnl_callback idx st = (Some e, st)"
  by (simp add: del_futures_pnl_callback_def)

lemma del_futures_pnl_callback_pops:
  "list_pop idx (sim_futures_pnl st) = Inr ps \<Longrightarrow>
   del_futures_pnl_callback idx st = (None, recalc_balance (st\<lparr>sim_futures_pnl := ps\<rparr>))"
  by (simp add: del_futures_pnl_callback_def)

lemma four_inputs_ledger_update:
  "four_inputs (st\<lparr>sim_trades := ts\<rparr>) = four_inputs st"
  "four_inputs (st\<lparr>sim_futures_pnl := ps\<rparr>) = four_inputs st"
  by (simp_all add: four_inputs_def)

lemma callbacks_four_inputs:
  "four_inputs (add_sell_callback st) = four_inputs st"
  "four_inputs (add_buy_callback st) = four_inputs st"
  "four_inputs (add_futures_pnl_callback st) = four_inputs st"
  "four_inputs (snd (del_trade_callback i st)) = four_inputs st"
  "four_inputs (snd (del_futures_pnl_callback j st)) = four_inputs st"
  by (simp_all add: add_sell_callback_def add_buy_callback_def add_futures_pnl_callback_def
        del_trade_callback_def del_futures_pnl_callback_def Let_def
        recalc_balance_four_inputs four_inputs_ledger_update split: sum.splits)

lemma callbacks_end_bal:
  "0 < new_sell_input st \<Longrightarrow>
     sim_end_bal (add_sell_callback st) = Some (end_bal_of (add_sell_callback st))"
  "0 < new_buy_input st \<Longrightarrow>
     sim_end_bal (add_buy_callback st) = Some (end_bal_of (add_buy_callback st))"
  "new_futures_pnl_input st \<noteq> 0 \<Longrightarrow>
     sim_end_bal (add_futures_pnl_callback st) = Some (end_bal_of (add_futures_pnl_callback st))"
  "fst (del_trade_callback i st) = None \<Longrightarrow>
     sim_end_bal (snd (del_trade_callback i st)) = Some (end_bal_of (snd (del_trade_callback i st)))"
  "fst (del_futures_pnl_callback j st) = None \<Longrightarrow>
     sim_end_bal (snd (del_futures_pnl_callback j st)) =
       Some (end_bal_of (snd (del_futures_pnl_callback j st)))"
  by (simp_all add: add_sell_callback_def add_buy_callback_def add_futures_pnl_callback_def
        del_trade_callback_def del_futures_pnl_callback_def Let_def
        recalc_balance_end_bal split: sum.splits)

section \<open>The claims\<close>

subsection \<open>The high-water mark\<close>

text \<open>
  Claim C1. The high-water-mark loop, started with \<open>cum_sell = cum_buy = max_val = 0\<close>, is
  the left-to-right fold of the specification: it adds the SELL amounts to cumSell and the BUY
  amounts to cumBuy and after each event takes the maximum of the mark so far and
  (cumSell - cumBuy) - min(cumSell, initialSpotBalance). Hence its result is the maximum of 0
  and of the flows of all non-empty prefixes of the ledger, and 0 for the empty ledger. On
  the page the loop runs when the exchange is OKX, on the value of the initial-spot input
  and the ledger of the session. It holds for every initial spot balance, negative ones
  included.
\<close>

theorem hwm_is_running_max_of_prefix_flows:
  "hwm_loop init 0 0 0 ts = hwm_fold init ts
   \<and> hwm_loop init 0 0 0 ts = Max (insert 0 ((\<lambda>k. prefix_flow init (take k ts)) ` {1..length ts}))
   \<and> hwm_loop init 0 0 0 [] = 0
   \<and> (startswith (exchange_mode inp) ''OKX'' \<longrightarrow>
        hwm_spot_flow inp =
          Max (insert 0 ((\<lambda>k. prefix_flow (init_spot_input inp) (take k (trades inp)))
                           ` {1..length (trades inp)})))"
proof -
  have fold: "hwm_loop init 0 0 0 ts = hwm_fold init ts"
    by (simp only: hwm_loop_fold hwm_fold_def)
  have pm: "hwm_loop i 0 0 0 xs = Max (insert 0 ((\<lambda>k. prefix_flow i (take k xs)) ` {1..length xs}))"
    for i xs
    by (simp only: hwm_loop_Max prefix_flow_flow_from)
  have page: "hwm_spot_flow inp = hwm_loop (init_spot_input inp) 0 0 0 (trades inp)"
    if "startswith (exchange_mode inp) ''OKX''"
    using that by (simp add: hwm_spot_flow_def val_initial_spot_def)
  show ?thesis
    using fold pm [of init ts] pm [of "init_spot_input inp" "trades inp"] page by simp
qed

theorem hwm_is_running_max_of_prefix_flows_witness:
  "startswith ''OKX'' ''OKX''
   \<and> hwm_spot_flow \<lparr>exchange_mode = ''OKX'', val_start_bal = 0, val_end_bal = 0,
        val_external_dep = 0, val_external_wd = 0, init_spot_input = 5,
        trades = [\<lparr>type = ''SELL'', amount = 20, pnl = 0\<rparr>, \<lparr>type = ''BUY'', amount = 30, pnl = 0\<rparr>]\<rparr> = 15"
proof -
  have two: "{Suc 0..Suc (Suc 0)} = {Suc 0, Suc (Suc 0)}" by auto
  show ?thesis
    using hwm_is_running_max_of_prefix_flows [of 0 "[]"
        "\<lparr>exchange_mode = ''OKX'', val_start_bal = 0, val_end_bal = 0,
        val_external_dep = 0, val_external_wd = 0, init_spot_input = 5,
        trades = [\<lparr>type = ''SELL'', amount = 20, pnl = 0\<rparr>, \<lparr>type = ''BUY'', amount = 30, pnl = 0\<rparr>]\<rparr>"]
    by (simp add: startswith_def two prefix_flow_def sum_amount_def)
qed

text \<open>
  Claim C6. For a fixed initial spot balance the high-water mark does not decrease when an
  event is appended to the ledger: for the loop, and for the value the page computes from
  it.
\<close>

theorem hwm_monotone_under_append:
  "hwm_loop init 0 0 0 s \<le> hwm_loop init 0 0 0 (s @ [e])
   \<and> hwm_spot_flow inp \<le> hwm_spot_flow (inp\<lparr>trades := trades inp @ [e]\<rparr>)"
proof -
  have mono: "hwm_loop i 0 0 0 xs \<le> hwm_loop i 0 0 0 (xs @ [e])" for i xs
    unfolding hwm_loop_append by (rule hwm_loop_ge)
  show ?thesis
    using mono [of init s] mono [of "init_spot_input inp" "trades inp"]
    by (simp add: hwm_spot_flow_def val_initial_spot_def)
qed

subsection \<open>The spot balance\<close>

text \<open>
  Claim C2. The current spot balance is the maximum of 0 and of the initial balance plus the
  BUY amounts minus the cost bases (amount - pnl) of the SELL events: the loop clamps
  nothing, the clamp is applied once to its result. An initial balance of 30 and one SELL
  of 10 with a realised PnL of -20 gives 0; a SELL of 10 followed by a BUY of 10 on an
  initial balance of 0 gives 0 as well, where a clamp after the SELL would have given 10.
\<close>

theorem current_spot_balance_clamped_once:
  "val_current_spot init ts = max 0 (init + sum_amount ''BUY'' ts - sum_cost_basis ts)
   \<and> val_current_spot 30 [\<lparr>type = ''SELL'', amount = 10, pnl = - 20\<rparr>] = 0
   \<and> val_current_spot 0 [\<lparr>type = ''SELL'', amount = 10, pnl = 0\<rparr>,
                          \<lparr>type = ''BUY'', amount = 10, pnl = 0\<rparr>] = 0"
  by (simp add: val_current_spot_def calc_spot_bal_eq sum_amount_def sum_cost_basis_def)

subsection \<open>Principal adjustment, adjusted PnL and ROI\<close>

text \<open>
  Claim C3. Under Policy A (the exchange is OKX) the principal adjustment is
  externalDeposit + max(0, hwmSpotFlow); under Policy B (the branch for any other exchange)
  it is externalDeposit. Under both policies the adjusted PnL is
  (endBalance - startBalance) - (externalDeposit + totalSpotSell)
  + (externalWithdrawal + totalSpotBuy), formed from the two spot totals that the page
  holds. On every input that the page can receive, that is with the exchange one of the
  options of the radio, Policy A applies and these totals are the sums of the SELL and of
  the BUY amounts of the ledger. The branch for another exchange, which no option of the
  radio selects, holds 0.0 for both totals. With startBalance 1000, endBalance 1200,
  externalDeposit 300, externalWithdrawal 0 and no spot transfers, under either policy, the
  adjusted PnL is -100, the principal adjustment 300 and the ROI -100/1300*100. Nothing
  depends on the scalar inputs being non-negative.
\<close>

theorem principal_adj_and_adjusted_pnl_by_policy:
  "(startswith (exchange_mode inp) ''OKX'' \<longrightarrow>
      principal_adj inp = val_external_dep inp + max 0 (hwm_spot_flow inp))
   \<and> (\<not> startswith (exchange_mode inp) ''OKX'' \<longrightarrow>
      principal_adj inp = val_external_dep inp)
   \<and> adjusted_pnl inp =
        (val_end_bal inp - val_start_bal inp)
        - (val_external_dep inp + val_spot_sell inp)
        + (val_external_wd inp + val_spot_buy inp)
   \<and> (exchange_mode inp \<in> set exchange_options \<longrightarrow>
        startswith (exchange_mode inp) ''OKX''
        \<and> val_spot_sell inp = sum_amount ''SELL'' (trades inp)
        \<and> val_spot_buy inp = sum_amount ''BUY'' (trades inp)
        \<and> principal_adj inp = val_external_dep inp + max 0 (hwm_spot_flow inp)
        \<and> adjusted_pnl inp =
            (val_end_bal inp - val_start_bal inp)
            - (val_external_dep inp + sum_amount ''SELL'' (trades inp))
            + (val_external_wd inp + sum_amount ''BUY'' (trades inp)))
   \<and> adjusted_pnl \<lparr>exchange_mode = mode, val_start_bal = 1000, val_end_bal = 1200,
        val_external_dep = 300, val_external_wd = 0, init_spot_input = i, trades = []\<rparr> = - 100
   \<and> principal_adj \<lparr>exchange_mode = mode, val_start_bal = 1000, val_end_bal = 1200,
        val_external_dep = 300, val_external_wd = 0, init_spot_input = i, trades = []\<rparr> = 300
   \<and> roi \<lparr>exchange_mode = mode, val_start_bal = 1000, val_end_bal = 1200,
        val_external_dep = 300, val_external_wd = 0, init_spot_input = i, trades = []\<rparr>
       = Inr (- 100 / 1300 * 100)"
proof -
  have pa: "principal_adj x =
      (if startswith (exchange_mode x) ''OKX'' then val_external_dep x + max 0 (hwm_spot_flow x)
       else val_external_dep x)" for x
    by (simp add: principal_adj_def use_hwm_def)
  have ap: "adjusted_pnl x =
      (val_end_bal x - val_start_bal x) - (val_external_dep x + val_spot_sell x)
      + (val_external_wd x + val_spot_buy x)" for x
    by (simp add: adjusted_pnl_def total_deposit_def total_withdrawal_def)
  have radio: "startswith (exchange_mode inp) ''OKX''"
    if "exchange_mode inp \<in> set exchange_options"
    using that by (simp add: exchange_options_def okx_label_def startswith_def)
  have totals: "val_spot_sell inp = sum_amount ''SELL'' (trades inp)
      \<and> val_spot_buy inp = sum_amount ''BUY'' (trades inp)"
    if "startswith (exchange_mode inp) ''OKX''"
    using that by (simp add: val_spot_sell_def val_spot_buy_def)
  have hw: "hwm_spot_flow \<lparr>exchange_mode = mode, val_start_bal = 1000, val_end_bal = 1200,
        val_external_dep = 300, val_external_wd = 0, init_spot_input = i, trades = []\<rparr> = 0"
    by (simp add: hwm_spot_flow_def)
  have ex_ap: "adjusted_pnl \<lparr>exchange_mode = mode, val_start_bal = 1000, val_end_bal = 1200,
        val_external_dep = 300, val_external_wd = 0, init_spot_input = i, trades = []\<rparr> = - 100"
    by (simp add: ap val_spot_sell_def val_spot_buy_def sum_amount_Nil)
  have ex_pa: "principal_adj \<lparr>exchange_mode = mode, val_start_bal = 1000, val_end_bal = 1200,
        val_external_dep = 300, val_external_wd = 0, init_spot_input = i, trades = []\<rparr> = 300"
    by (simp add: pa hw)
  have ex_roi: "roi \<lparr>exchange_mode = mode, val_start_bal = 1000, val_end_bal = 1200,
        val_external_dep = 300, val_external_wd = 0, init_spot_input = i, trades = []\<rparr>
       = Inr (- 100 / 1300 * 100)"
    unfolding roi_def Let_def ex_ap ex_pa by (simp add: roi_of_def truediv_def)
  have reach: "startswith (exchange_mode inp) ''OKX''
        \<and> val_spot_sell inp = sum_amount ''SELL'' (trades inp)
        \<and> val_spot_buy inp = sum_amount ''BUY'' (trades inp)
        \<and> principal_adj inp = val_external_dep inp + max 0 (hwm_spot_flow inp)
        \<and> adjusted_pnl inp =
            (val_end_bal inp - val_start_bal inp)
            - (val_external_dep inp + sum_amount ''SELL'' (trades inp))
            + (val_external_wd inp + sum_amount ''BUY'' (trades inp))"
    if r: "exchange_mode inp \<in> set exchange_options"
    using radio [OF r] totals [OF radio [OF r]] pa [of inp] ap [of inp] by simp
  show ?thesis
    using pa [of inp] ap [of inp] reach ex_ap ex_pa ex_roi by simp
qed

theorem principal_adj_and_adjusted_pnl_by_policy_witness:
  "exchange_mode okx_sell_buy \<in> set exchange_options
   \<and> startswith (exchange_mode okx_sell_buy) ''OKX''
   \<and> principal_adj okx_sell_buy = 25 \<and> adjusted_pnl okx_sell_buy = 50
   \<and> \<not> startswith (exchange_mode binance_deposit) ''OKX''
   \<and> principal_adj binance_deposit = 300 \<and> adjusted_pnl binance_deposit = - 100"
proof -
  have opt: "exchange_mode okx_sell_buy \<in> set exchange_options"
    by (simp add: okx_sell_buy_def exchange_options_def)
  have bin: "\<not> startswith (exchange_mode binance_deposit) ''OKX''"
    by (simp add: binance_deposit_def startswith_def)
  have bin_totals: "val_spot_sell binance_deposit = 0 \<and> val_spot_buy binance_deposit = 0"
    by (simp add: val_spot_sell_def val_spot_buy_def binance_deposit_def startswith_def)
  have hw: "hwm_spot_flow okx_sell_buy = 15"
    by (simp add: okx_sell_buy_def hwm_spot_flow_def val_initial_spot_def startswith_def
          okx_label_def)
  show ?thesis
    using opt bin bin_totals hw
      principal_adj_and_adjusted_pnl_by_policy [of okx_sell_buy]
      principal_adj_and_adjusted_pnl_by_policy [of binance_deposit]
    by (simp add: okx_sell_buy_def binance_deposit_def sum_amount_def)
qed

text \<open>
  Claim C5. The ROI computation never raises a division error. For non-negative
  startBalance and principalAdjustment: when their sum is positive the ROI is
  adjustedPnl / (startBalance + principalAdjustment) * 100, otherwise both are zero and the
  ROI is 0. The page's \<open>roi\<close> is such a value for every input.
\<close>

theorem roi_never_divides_by_zero:
  assumes "0 \<le> sb" and "0 \<le> pa"
  shows "roi_of adj (sb + pa) = Inr (if sb + pa > 0 then adj / (sb + pa) * 100 else 0)
     \<and> (\<not> sb + pa > 0 \<longrightarrow> sb = 0 \<and> pa = 0)
     \<and> roi inp = Inr (if val_start_bal inp + principal_adj inp > 0
                       then adjusted_pnl inp / (val_start_bal inp + principal_adj inp) * 100
                       else 0)"
proof -
  have r: "roi_of a d = Inr (if d > 0 then a / d * 100 else 0)" for a d
    by (simp add: roi_of_def truediv_def)
  have z: "\<not> sb + pa > 0 \<longrightarrow> sb = 0 \<and> pa = 0"
    using assms by auto
  show ?thesis
    using z by (simp add: r roi_def)
qed

theorem roi_never_divides_by_zero_witness:
  "(0::real) \<le> 0 \<and> roi_of 7 (0 + 0) = Inr 0
   \<and> (0::real) \<le> 1000 \<and> (0::real) \<le> 300 \<and> roi_of (- 100) (1000 + 300) = Inr (- 100 / 13)"
  using roi_never_divides_by_zero [of 0 0 7 okx_sell_buy]
    roi_never_divides_by_zero [of 1000 300 "- 100" okx_sell_buy]
  by simp

subsection \<open>The ledger callbacks\<close>

text \<open>
  Claim C4, as stated, fails: every callback that changes a ledger ends with
  \<open>recalc_balance\<close>, which overwrites the end balance. In a session with every number at
  zero, adding a SELL of 5 turns the end balance from 0 into 5.
\<close>

theorem add_sell_changes_end_balance_counterexample:
  "sim_end_bal sell_5_session = Some 0
   \<and> sim_end_bal (add_sell_callback sell_5_session) = Some 5"
  by (simp add: sell_5_session_def empty_session_def add_sell_callback_def recalc_balance_def
        session_get_def sum_amount_def)

text \<open>
  Claim C4, amended. No ledger callback (adding a SELL, a BUY or a futures PnL, deleting a
  trade or a futures PnL) changes the start balance, the external deposit, the external
  withdrawal or the initial spot balance. The end balance is not independent of the
  ledgers: every callback that changes a ledger sets it to
  startBalance + externalDeposit - externalWithdrawal + totalSpotSell - totalSpotBuy
  + the sum of the futures-PnL entries, taken over the ledgers after the change.
\<close>

theorem ledger_mutations_keep_four_inputs_and_set_end_balance:
  "four_inputs (add_sell_callback st) = four_inputs st
   \<and> four_inputs (add_buy_callback st) = four_inputs st
   \<and> four_inputs (add_futures_pnl_callback st) = four_inputs st
   \<and> four_inputs (snd (del_trade_callback i st)) = four_inputs st
   \<and> four_inputs (snd (del_futures_pnl_callback j st)) = four_inputs st
   \<and> (0 < new_sell_input st \<longrightarrow>
        sim_end_bal (add_sell_callback st) = Some (end_bal_of (add_sell_callback st)))
   \<and> (0 < new_buy_input st \<longrightarrow>
        sim_end_bal (add_buy_callback st) = Some (end_bal_of (add_buy_callback st)))
   \<and> (new_futures_pnl_input st \<noteq> 0 \<longrightarrow>
        sim_end_bal (add_futures_pnl_callback st) = Some (end_bal_of (add_futures_pnl_callback st)))
   \<and> (fst (del_trade_callback i st) = None \<longrightarrow>
        sim_end_bal (snd (del_trade_callback i st))
          = Some (end_bal_of (snd (del_trade_callback i st))))
   \<and> (fst (del_futures_pnl_callback j st) = None \<longrightarrow>
        sim_end_bal (snd (del_futures_pnl_callback j st))
          = Some (end_bal_of (snd (del_futures_pnl_callback j st))))"
  using callbacks_four_inputs callbacks_end_bal by simp

theorem ledger_mutations_keep_four_inputs_and_set_end_balance_witness:
  "0 < new_sell_input sell_5_session
   \<and> sim_end_bal (add_sell_callback sell_5_session) = Some 5
   \<and> 0 < new_buy_input two_trades_session
   \<and> sim_end_bal (add_buy_callback two_trades_session) = Some 3
   \<and> new_futures_pnl_input two_trades_session \<noteq> 0
   \<and> sim_end_bal (add_futures_pnl_callback two_trades_session) = Some 6
   \<and> fst (del_trade_callback 0 two_trades_session) = None
   \<and> sim_end_bal (snd (del_trade_callback 0 two_trades_session)) = Some 2
   \<and> fst (del_futures_pnl_callback 1 two_trades_session) = None
   \<and> sim_end_bal (snd (del_futures_pnl_callback 1 two_trades_session)) = Some 9"
proof -
  have dt: "del_trade_callback 0 two_trades_session =
      (None, recalc_balance (two_trades_session\<lparr>sim_trades := [\<lparr>type = ''BUY'', amount = 3, pnl = 0\<rparr>]\<rparr>))"
    by (simp add: del_trade_callback_def list_pop_def ssize_max_def two_trades_session_def
          empty_session_def)
  have df: "del_futures_pnl_callback 1 two_trades_session =
      (None, recalc_balance (two_trades_session\<lparr>sim_futures_pnl := [7]\<rparr>))"
    by (simp add: del_futures_pnl_callback_def list_pop_def ssize_max_def two_trades_session_def
          empty_session_def)
  show ?thesis
    using ledger_mutations_keep_four_inputs_and_set_end_balance [of sell_5_session 0 0]
      ledger_mutations_keep_four_inputs_and_set_end_balance [of two_trades_session 0 1]
    unfolding dt df
    by (simp add: sell_5_session_def two_trades_session_def empty_session_def
          add_sell_callback_def add_buy_callback_def add_futures_pnl_callback_def
          recalc_balance_def end_bal_of_def session_get_def sum_amount_def Let_def)
qed

text \<open>
  Claim C7, as stated, fails: the callback appends only when the amount is greater than 0,
  so a SELL of amount 0 is not appended, and nothing is raised.
\<close>

theorem add_zero_amount_sell_counterexample:
  "new_sell_input empty_session = 0
   \<and> sim_trades (add_sell_callback empty_session) = sim_trades empty_session
   \<and> sim_trades (add_sell_callback empty_session)
       \<noteq> sim_trades empty_session @ [\<lparr>type = ''SELL'', amount = 0, pnl = 0\<rparr>]"
  by (simp add: empty_session_def add_sell_callback_def)

text \<open>
  Claim C7, amended. Adding a spot transfer (SELL or BUY) whose amount is zero or negative
  raises nothing and leaves the session as it is; an amount greater than zero appends the
  event to the end of the spot transfers.
\<close>

theorem add_spot_transfer_only_positive_amount:
  "(new_sell_input st \<le> 0 \<longrightarrow> add_sell_callback st = st)
   \<and> (0 < new_sell_input st \<longrightarrow>
        sim_trades (add_sell_callback st) =
          sim_trades st @ [\<lparr>type = ''SELL'', amount = new_sell_input st,
                             pnl = session_get (new_sell_pnl st) 0\<rparr>])
   \<and> (new_buy_input st \<le> 0 \<longrightarrow> add_buy_callback st = st)
   \<and> (0 < new_buy_input st \<longrightarrow>
        sim_trades (add_buy_callback st) =
          sim_trades st @ [\<lparr>type = ''BUY'', amount = new_buy_input st, pnl = 0\<rparr>])"
  by (simp add: add_sell_callback_def add_buy_callback_def Let_def recalc_balance_ledgers)

theorem add_spot_transfer_only_positive_amount_witness:
  "new_sell_input empty_session \<le> 0 \<and> add_sell_callback empty_session = empty_session
   \<and> new_buy_input empty_session \<le> 0 \<and> add_buy_callback empty_session = empty_session
   \<and> 0 < new_sell_input sell_5_session
   \<and> sim_trades (add_sell_callback sell_5_session) = [\<lparr>type = ''SELL'', amount = 5, pnl = 0\<rparr>]
   \<and> 0 < new_buy_input two_trades_session
   \<and> sim_trades (add_buy_callback two_trades_session) =
        [\<lparr>type = ''SELL'', amount = 5, pnl = 0\<rparr>, \<lparr>type = ''BUY'', amount = 3, pnl = 0\<rparr>,
         \<lparr>type = ''BUY'', amount = 4, pnl = 0\<rparr>]"
  using add_spot_transfer_only_positive_amount [of empty_session]
    add_spot_transfer_only_positive_amount [of sell_5_session]
    add_spot_transfer_only_positive_amount [of two_trades_session]
  by (simp add: empty_session_def sell_5_session_def two_trades_session_def session_get_def)

text \<open>
  Claim C9. Adding a futures PnL of exactly 0 leaves the whole session as it is; any other
  amount, positive or negative, is appended to the end of the futures-PnL ledger (and the
  trade ledger stays as it is).
\<close>

theorem add_futures_pnl_rejects_zero:
  "(new_futures_pnl_input st = 0 \<longrightarrow> add_futures_pnl_callback st = st)
   \<and> (new_futures_pnl_input st \<noteq> 0 \<longrightarrow>
        sim_futures_pnl (add_futures_pnl_callback st) =
          sim_futures_pnl st @ [new_futures_pnl_input st]
        \<and> sim_trades (add_futures_pnl_callback st) = sim_trades st)"
  by (simp add: add_futures_pnl_callback_def Let_def recalc_balance_ledgers)

theorem add_futures_pnl_rejects_zero_witness:
  "new_futures_pnl_input empty_session = 0
   \<and> add_futures_pnl_callback empty_session = empty_session
   \<and> new_futures_pnl_input two_trades_session \<noteq> 0
   \<and> sim_futures_pnl (add_futures_pnl_callback two_trades_session) = [7, - 2, - 1]"
  using add_futures_pnl_rejects_zero [of empty_session]
    add_futures_pnl_rejects_zero [of two_trades_session]
  by (simp add: empty_session_def two_trades_session_def)

text \<open>
  Claim C8, as stated, fails: an index that does not fit the machine's index type never
  reaches the range check. Deleting at index 2^63 from a ledger of two trades raises
  OverflowError, not IndexError (and leaves the session as it is).
\<close>

theorem delete_at_huge_index_counterexample:
  "int (length (sim_trades two_trades_session)) \<le> 2 ^ 63
   \<and> del_trade_callback (2 ^ 63) two_trades_session = (Some OverflowError, two_trades_session)
   \<and> fst (del_trade_callback (2 ^ 63) two_trades_session) \<noteq> Some IndexError"
  by (simp add: del_trade_callback_def list_pop_def ssize_max_def two_trades_session_def
        empty_session_def)

text \<open>
  Claim C8, amended. Deleting at an index greater than or equal to the length of the ledger
  raises IndexError when the index is at most 2^63 - 1 and OverflowError when it is larger;
  either way the session, hence every result computed from it, stays as it is. Deleting at
  an index from 0 up to the length removes the element at that index and keeps the others
  in their order. All of it holds for the trade ledger and for the futures-PnL ledger, a
  ledger being a Python list, of at most 2^63 - 1 entries.
\<close>

theorem delete_by_index_out_of_range_and_in_range:
  "(int (length (sim_trades st)) \<le> idx \<and> idx \<le> ssize_max \<longrightarrow>
      del_trade_callback idx st = (Some IndexError, st))
   \<and> (ssize_max < idx \<longrightarrow>
      del_trade_callback idx st = (Some OverflowError, st))
   \<and> (0 \<le> idx \<and> idx < int (length (sim_trades st))
       \<and> int (length (sim_trades st)) \<le> ssize_max \<longrightarrow>
      fst (del_trade_callback idx st) = None
      \<and> sim_trades (snd (del_trade_callback idx st)) =
          take (nat idx) (sim_trades st) @ drop (Suc (nat idx)) (sim_trades st)
      \<and> sim_futures_pnl (snd (del_trade_callback idx st)) = sim_futures_pnl st)
   \<and> (int (length (sim_futures_pnl st)) \<le> idx \<and> idx \<le> ssize_max \<longrightarrow>
      del_futures_pnl_callback idx st = (Some IndexError, st))
   \<and> (ssize_max < idx \<longrightarrow>
      del_futures_pnl_callback idx st = (Some OverflowError, st))
   \<and> (0 \<le> idx \<and> idx < int (length (sim_futures_pnl st))
       \<and> int (length (sim_futures_pnl st)) \<le> ssize_max \<longrightarrow>
      fst (del_futures_pnl_callback idx st) = None
      \<and> sim_futures_pnl (snd (del_futures_pnl_callback idx st)) =
          take (nat idx) (sim_futures_pnl st) @ drop (Suc (nat idx)) (sim_futures_pnl st)
      \<and> sim_trades (snd (del_futures_pnl_callback idx st)) = sim_trades st)"
proof -
  have t_out: "del_trade_callback idx st = (Some IndexError, st)"
    if "int (length (sim_trades st)) \<le> idx" and "idx \<le> ssize_max"
    using that by (simp add: del_trade_callback_raises list_pop_out_of_range)
  have f_out: "del_futures_pnl_callback idx st = (Some IndexError, st)"
    if "int (length (sim_futures_pnl st)) \<le> idx" and "idx \<le> ssize_max"
    using that by (simp add: del_futures_pnl_callback_raises list_pop_out_of_range)
  have t_big: "del_trade_callback idx st = (Some OverflowError, st)"
    if "ssize_max < idx"
    using that by (simp add: del_trade_callback_raises list_pop_overflow)
  have f_big: "del_futures_pnl_callback idx st = (Some OverflowError, st)"
    if "ssize_max < idx"
    using that by (simp add: del_futures_pnl_callback_raises list_pop_overflow)
  have t_in: "del_trade_callback idx st =
      (None, recalc_balance
         (st\<lparr>sim_trades := take (nat idx) (sim_trades st) @ drop (Suc (nat idx)) (sim_trades st)\<rparr>))"
    if "0 \<le> idx" and "idx < int (length (sim_trades st))"
      and "int (length (sim_trades st)) \<le> ssize_max"
    using that by (simp add: del_trade_callback_pops list_pop_in_range)
  have f_in: "del_futures_pnl_callback idx st =
      (None, recalc_balance
         (st\<lparr>sim_futures_pnl :=
              take (nat idx) (sim_futures_pnl st) @ drop (Suc (nat idx)) (sim_futures_pnl st)\<rparr>))"
    if "0 \<le> idx" and "idx < int (length (sim_futures_pnl st))"
      and "int (length (sim_futures_pnl st)) \<le> ssize_max"
    using that by (simp add: del_futures_pnl_callback_pops list_pop_in_range)
  show ?thesis
    using t_out f_out t_big f_big t_in f_in by (simp add: recalc_balance_ledgers)
qed

theorem delete_by_index_out_of_range_and_in_range_witness:
  "int (length (sim_trades two_trades_session)) \<le> 2 \<and> 2 \<le> ssize_max
   \<and> del_trade_callback 2 two_trades_session = (Some IndexError, two_trades_session)
   \<and> int (length (sim_futures_pnl two_trades_session)) \<le> 2
   \<and> del_futures_pnl_callback 2 two_trades_session = (Some IndexError, two_trades_session)
   \<and> ssize_max < 2 ^ 63
   \<and> del_trade_callback (2 ^ 63) two_trades_session = (Some OverflowError, two_trades_session)
   \<and> del_futures_pnl_callback (2 ^ 63) two_trades_session
       = (Some OverflowError, two_trades_session)
   \<and> (0::int) \<le> 0 \<and> 0 < int (length (sim_trades two_trades_session))
   \<and> int (length (sim_trades two_trades_session)) \<le> ssize_max
   \<and> sim_trades (snd (del_trade_callback 0 two_trades_session)) =
        [\<lparr>type = ''BUY'', amount = 3, pnl = 0\<rparr>]
   \<and> 0 < int (length (sim_futures_pnl two_trades_session))
   \<and> int (length (sim_futures_pnl two_trades_session)) \<le> ssize_max
   \<and> sim_futures_pnl (snd (del_futures_pnl_callback 0 two_trades_session)) = [- 2]"
  using delete_by_index_out_of_range_and_in_range [of two_trades_session 2]
    delete_by_index_out_of_range_and_in_range [of two_trades_session "2 ^ 63"]
    delete_by_index_out_of_range_and_in_range [of two_trades_session 0]
  by (simp add: two_trades_session_def empty_session_def ssize_max_def)

text \<open>
  Claim C10. Deleting a trade at a negative index follows Python: for a ledger of length n
  (a Python list, so n is at most 2^63 - 1) and an index i from -n to -1 the element at
  position n + i is removed and nothing is raised, so index -1 removes the last element of
  a non-empty ledger. IndexError is raised for a negative index only when i is below -n:
  it is raised for every such index down to -2^63, and an index below -2^63 raises
  OverflowError instead. Whenever an exception is raised the session stays as it is.
\<close>

theorem delete_by_negative_index:
  "(- int (length (sim_trades st)) \<le> idx \<and> idx \<le> - 1
    \<and> int (length (sim_trades st)) \<le> ssize_max \<longrightarrow>
      fst (del_trade_callback idx st) = None
      \<and> sim_trades (snd (del_trade_callback idx st)) =
          take (nat (int (length (sim_trades st)) + idx)) (sim_trades st)
          @ drop (Suc (nat (int (length (sim_trades st)) + idx))) (sim_trades st))
   \<and> (sim_trades st \<noteq> [] \<longrightarrow>
      fst (del_trade_callback (- 1) st) = None
      \<and> sim_trades (snd (del_trade_callback (- 1) st)) = butlast (sim_trades st))
   \<and> (idx < 0 \<and> fst (del_trade_callback idx st) = Some IndexError \<longrightarrow>
      idx < - int (length (sim_trades st)))
   \<and> (idx < - int (length (sim_trades st)) \<and> - ssize_max - 1 \<le> idx \<longrightarrow>
      del_trade_callback idx st = (Some IndexError, st))
   \<and> (idx < - ssize_max - 1 \<longrightarrow>
      del_trade_callback idx st = (Some OverflowError, st))"
proof -
  have neg: "del_trade_callback idx st =
      (None, recalc_balance
         (st\<lparr>sim_trades := take (nat (int (length (sim_trades st)) + idx)) (sim_trades st)
              @ drop (Suc (nat (int (length (sim_trades st)) + idx))) (sim_trades st)\<rparr>))"
    if "- int (length (sim_trades st)) \<le> idx" and "idx \<le> - 1"
      and "int (length (sim_trades st)) \<le> ssize_max"
    using that by (simp add: del_trade_callback_pops list_pop_negative)
  have lst: "del_trade_callback (- 1) st =
      (None, recalc_balance (st\<lparr>sim_trades := butlast (sim_trades st)\<rparr>))"
    if "sim_trades st \<noteq> []"
    using that by (simp add: del_trade_callback_pops list_pop_last)
  have only: "idx < - int (length (sim_trades st))"
    if "idx < 0" and "fst (del_trade_callback idx st) = Some IndexError"
  proof (cases "list_pop idx (sim_trades st)")
    case (Inl e)
    with that(2) have "list_pop idx (sim_trades st) = Inl IndexError"
      by (simp add: del_trade_callback_def)
    with that(1) show ?thesis
      by (rule list_pop_IndexError_negative)
  next
    case (Inr ts)
    with that(2) show ?thesis
      by (simp add: del_trade_callback_def)
  qed
  have below: "del_trade_callback idx st = (Some IndexError, st)"
    if "idx < - int (length (sim_trades st))" and "- ssize_max - 1 \<le> idx"
    using that by (simp add: del_trade_callback_raises list_pop_below_range)
  have far: "del_trade_callback idx st = (Some OverflowError, st)"
    if "idx < - ssize_max - 1"
    using that by (simp add: del_trade_callback_raises list_pop_overflow)
  show ?thesis
    using neg lst only below far by (simp add: recalc_balance_ledgers)
qed

theorem delete_by_negative_index_witness:
  "- int (length (sim_trades two_trades_session)) \<le> - 2 \<and> (- 2 :: int) \<le> - 1
   \<and> int (length (sim_trades two_trades_session)) \<le> ssize_max
   \<and> sim_trades (snd (del_trade_callback (- 2) two_trades_session)) =
        [\<lparr>type = ''BUY'', amount = 3, pnl = 0\<rparr>]
   \<and> sim_trades two_trades_session \<noteq> []
   \<and> sim_trades (snd (del_trade_callback (- 1) two_trades_session)) =
        [\<lparr>type = ''SELL'', amount = 5, pnl = 0\<rparr>]
   \<and> (- 3 :: int) < 0 \<and> fst (del_trade_callback (- 3) two_trades_session) = Some IndexError
   \<and> - 3 < - int (length (sim_trades two_trades_session)) \<and> - ssize_max - 1 \<le> - 3
   \<and> del_trade_callback (- 3) two_trades_session = (Some IndexError, two_trades_session)
   \<and> - (2 ^ 63) - 1 < - ssize_max - 1
   \<and> del_trade_callback (- (2 ^ 63) - 1) two_trades_session
       = (Some OverflowError, two_trades_session)"
  using delete_by_negative_index [of two_trades_session "- 2"]
    delete_by_negative_index [of two_trades_session "- 3"]
    delete_by_negative_index [of two_trades_session "- (2 ^ 63) - 1"]
  by (simp add: two_trades_session_def empty_session_def ssize_max_def)

end
